theory Spec2Isabelle
  imports Main "HOL-Library.Sublist" "HOL-Library.Word"
begin

section \<open>The S3 agent constructor of pkg/s3/agent/agent.go\<close>

text \<open>
  The package has two functions: \<open>validateConfig\<close>, which checks the fields of a
  \<open>Config\<close>, and \<open>NewS3Agent\<close>, which validates, builds a TLS configuration, an HTTP
  client and an SDK session, and wraps the S3 client in an \<open>S3Agent\<close>. Everything else
  is done by collaborators: \<open>net/url\<close>, \<open>pkg/utils\<close> and the AWS SDK. The model takes
  the collaborators as parameters and records each call that \<open>NewS3Agent\<close> makes to a
  construction step. A second model of the two functions passes the memory that holds
  the bytes of the root certificate, which the caller shares with the callee.
\<close>

subsection \<open>Errors\<close>

text \<open>
  A Go \<open>error\<close> is a value with a method \<open>Error()\<close> that gives its text.
  \<open>Errorf m\<close> is the value that \<open>fmt.Errorf\<close> makes in this package, with the formatted
  text \<open>m\<close>; \<open>External m\<close> is an error value made by a collaborator, whose text is \<open>m\<close>.
  The verb \<open>%v\<close> of \<open>fmt.Errorf\<close> formats an error argument as its text.
\<close>

datatype error = Errorf string | External string

fun Error :: "error \<Rightarrow> string" where
  "Error (Errorf m) = m"
| "Error (External m) = m"

subsection \<open>Data\<close>

type_synonym byte = "8 word"

text \<open>
  \<open>Config\<close>, lines 44 to 49. A Go string is a sequence of bytes, as \<open>string\<close> is here.
  \<open>RootCA\<close> is a byte slice; the nil slice and the empty slice both hold no bytes and
  are \<open>[]\<close> here (the source never compares \<open>RootCA\<close> with nil).
\<close>

record Config =
  AccessKey :: string
  SecretKey :: string
  Endpoint :: string
  RootCA :: "byte list"

text \<open>\<open>S3Agent\<close>, lines 39 to 41; \<open>'c\<close> is the SDK's client type \<open>s3.S3\<close>.\<close>

record 'c S3Agent =
  Client :: 'c

text \<open>
  The result of \<open>utils.BuildTLSConfig\<close>: a TLS client configuration that trusts either
  the system's certificate authorities or the supplied one.
\<close>

datatype tls_Config = DefaultTrust | TrustRootCA "byte list"

record http_Transport =
  TLSClientConfig :: tls_Config

text \<open>\<open>Timeout\<close> is a \<open>time.Duration\<close>: a count of nanoseconds.\<close>

record http_Client =
  Timeout :: int
  Transport :: http_Transport

datatype Credentials = NewStaticCredentials string string string

text \<open>
  The fields of the SDK's \<open>aws.Config\<close> that the source sets. In the SDK each is a
  pointer that is nil until a \<open>With...\<close> method sets it, hence the options. The SDK's
  field \<open>Endpoint\<close> is \<open>aws_Endpoint\<close> here, the name \<open>Endpoint\<close> being \<open>Config\<close>'s.
\<close>

record aws_Config =
  Region :: "string option"
  Credentials :: "Credentials option"
  aws_Endpoint :: "string option"
  S3ForcePathStyle :: "bool option"
  MaxRetries :: "int option"
  HTTPClient :: "http_Client option"

definition NewConfig :: aws_Config where
  "NewConfig = \<lparr>Region = None, Credentials = None, aws_Endpoint = None,
     S3ForcePathStyle = None, MaxRetries = None, HTTPClient = None\<rparr>"

definition WithRegion :: "string \<Rightarrow> aws_Config \<Rightarrow> aws_Config" where
  "WithRegion region c = c\<lparr>Region := Some region\<rparr>"

definition WithCredentials :: "Credentials \<Rightarrow> aws_Config \<Rightarrow> aws_Config" where
  "WithCredentials creds c = c\<lparr>Credentials := Some creds\<rparr>"

definition WithEndpoint :: "string \<Rightarrow> aws_Config \<Rightarrow> aws_Config" where
  "WithEndpoint endpoint c = c\<lparr>aws_Endpoint := Some endpoint\<rparr>"

definition WithS3ForcePathStyle :: "bool \<Rightarrow> aws_Config \<Rightarrow> aws_Config" where
  "WithS3ForcePathStyle force c = c\<lparr>S3ForcePathStyle := Some force\<rparr>"

definition WithMaxRetries :: "int \<Rightarrow> aws_Config \<Rightarrow> aws_Config" where
  "WithMaxRetries n c = c\<lparr>MaxRetries := Some n\<rparr>"

definition WithHTTPClient :: "http_Client \<Rightarrow> aws_Config \<Rightarrow> aws_Config" where
  "WithHTTPClient client c = c\<lparr>HTTPClient := Some client\<rparr>"

subsection \<open>Constants, lines 32 to 36\<close>

definition Second :: int where
  "Second = 1000000000"

definition defaultRegion :: string where
  "defaultRegion = ''us-east-1''"

definition httpTimeOut :: int where
  "httpTimeOut = 200 * Second"

definition maxRetries :: int where
  "maxRetries = 5"

subsection \<open>Collaborators\<close>

text \<open>
  What the package calls and does not define:
  \<^item> \<open>url_Parse\<close> is \<open>url.Parse\<close> of the standard library, reduced to its error result
    (the source discards the parsed URL);
  \<^item> \<open>cert_material\<close> is the check of certificate material inside
    \<open>utils.BuildTLSConfig\<close>: \<open>None\<close> when the bytes are valid material;
  \<^item> \<open>session_NewSession\<close> is the SDK's \<open>session.NewSession\<close>, which may fail;
  \<^item> \<open>s3_New\<close> is the SDK's \<open>s3.New\<close>, which makes the client from a session.
  \<open>'s\<close> is the SDK's session type and \<open>'c\<close> its client type.
\<close>

record ('s, 'c) env =
  url_Parse :: "string \<Rightarrow> error option"
  cert_material :: "byte list \<Rightarrow> error option"
  session_NewSession :: "aws_Config \<Rightarrow> error + 's"
  s3_New :: "'s \<Rightarrow> 'c"

text \<open>
  Modelled from the spec: \<open>utils.BuildTLSConfig\<close> (package \<open>pkg/utils\<close> of this
  repository is not among the sources). The specification's BuildTLSTransport says: with
  no root certificate bytes the result has the default trust; with bytes that are not
  valid certificate material it fails; otherwise the result trusts the supplied
  authority. Which bytes are valid material, and the error for those that are not, is the
  parameter \<open>check\<close>.
\<close>

definition BuildTLSConfig :: "(byte list \<Rightarrow> error option) \<Rightarrow> byte list \<Rightarrow> error + tls_Config" where
  "BuildTLSConfig check rootCA =
     (if rootCA = [] then Inr DefaultTrust
      else case check rootCA of
             Some err \<Rightarrow> Inl err
           | None \<Rightarrow> Inr (TrustRootCA rootCA))"

subsection \<open>validateConfig, lines 91 to 109\<close>

definition validateConfig :: "('s, 'c) env \<Rightarrow> Config \<Rightarrow> error option" where
  "validateConfig env cfg =
     (if Endpoint cfg = [] then Some (Errorf ''endpoint is empty'')
      else case url_Parse env (Endpoint cfg) of
             Some err \<Rightarrow>
               Some (Errorf (''url parse endpoint ['' @ Endpoint cfg
                             @ ''] failed, error is ['' @ Error err @ '']''))
           | None \<Rightarrow>
               if AccessKey cfg = [] then Some (Errorf ''access key is empty'')
               else if SecretKey cfg = [] then Some (Errorf ''secret key is empty'')
               else None)"

subsection \<open>NewS3Agent, lines 52 to 88\<close>

text \<open>
  The calls of \<open>NewS3Agent\<close> to its construction steps, each with its argument. The
  function returns them, in order, beside its result: a step that was not reached is
  not in the list. (\<open>url.Parse\<close> is a function of its string and belongs to validation;
  it is not a construction step.)
\<close>

datatype 's call =
  BuildTLSConfig_call "byte list"
| NewSession_call aws_Config
| s3_New_call 's

text \<open>The argument of \<open>session.NewSession\<close>, lines 63 to 79.\<close>

definition awsConfig :: "Config \<Rightarrow> tls_Config \<Rightarrow> aws_Config" where
  "awsConfig cfg tlsConfig =
     (let tr = \<lparr>TLSClientConfig = tlsConfig\<rparr>;
          client = \<lparr>Timeout = httpTimeOut, Transport = tr\<rparr>
      in WithHTTPClient client
           (WithMaxRetries maxRetries
             (WithS3ForcePathStyle True
               (WithEndpoint (Endpoint cfg)
                 (WithCredentials (NewStaticCredentials (AccessKey cfg) (SecretKey cfg) [])
                   (WithRegion defaultRegion NewConfig))))))"

text \<open>
  Go's \<open>(nil, err)\<close> is \<open>Inl err\<close> and \<open>(&S3Agent{...}, nil)\<close> is \<open>Inr\<close> of the agent:
  the source returns no other pair.
\<close>

definition NewS3Agent :: "('s, 'c) env \<Rightarrow> Config \<Rightarrow> (error + 'c S3Agent) \<times> 's call list" where
  "NewS3Agent env cfg =
     (case validateConfig env cfg of
        Some err \<Rightarrow> (Inl err, [])
      | None \<Rightarrow>
          (case BuildTLSConfig (cert_material env) (RootCA cfg) of
             Inl err \<Rightarrow>
               (Inl (Errorf (''build tls config failed, error is ['' @ Error err @ '']'')),
                [BuildTLSConfig_call (RootCA cfg)])
           | Inr tlsConfig \<Rightarrow>
               (case session_NewSession env (awsConfig cfg tlsConfig) of
                  Inl err \<Rightarrow>
                    (Inl err,
                     [BuildTLSConfig_call (RootCA cfg), NewSession_call (awsConfig cfg tlsConfig)])
                | Inr s \<Rightarrow>
                    (Inr \<lparr>Client = s3_New env s\<rparr>,
                     [BuildTLSConfig_call (RootCA cfg), NewSession_call (awsConfig cfg tlsConfig),
                      s3_New_call s]))))"

subsection \<open>The SDK's session and client\<close>

text \<open>
  Modelled from the spec: the SDK's \<open>session.NewSession\<close> and \<open>s3.New\<close> (the AWS SDK
  is not among the sources). The specification says of them: a session is an object
  encapsulating the credentials, region and endpoint used to sign and route the later
  requests, constructed from region, credentials, endpoint, path-style flag, retry count
  and HTTP client as inputs; opening it may fail; the API client is constructed from
  the session, and has a configured endpoint and an addressing style. So a session
  holds the configuration it was opened with, and the client made from a session is
  configured as the session is. When opening fails, and with which error, is the
  parameter \<open>failure\<close>.
\<close>

record session_Session =
  session_Config :: aws_Config

record s3_S3 =
  client_Config :: aws_Config

definition sdk_NewSession :: "(aws_Config \<Rightarrow> error option) \<Rightarrow> aws_Config \<Rightarrow> error + session_Session" where
  "sdk_NewSession failure c =
     (case failure c of
        Some err \<Rightarrow> Inl err
      | None \<Rightarrow> Inr \<lparr>session_Config = c\<rparr>)"

definition sdk_New :: "session_Session \<Rightarrow> s3_S3" where
  "sdk_New s = \<lparr>client_Config = session_Config s\<rparr>"

text \<open>The environment with this SDK, for any parser, certificate check and failure.\<close>

definition sdk_env ::
  "(string \<Rightarrow> error option) \<Rightarrow> (byte list \<Rightarrow> error option) \<Rightarrow> (aws_Config \<Rightarrow> error option)
   \<Rightarrow> (session_Session, s3_S3) env" where
  "sdk_env parse check failure =
     \<lparr>url_Parse = parse, cert_material = check,
      session_NewSession = sdk_NewSession failure, s3_New = sdk_New\<rparr>"

subsection \<open>The configuration in memory\<close>

text \<open>
  Go passes the \<open>Config\<close> struct by value and its strings cannot be written to, but
  the slice \<open>RootCA\<close> is a reference: the callee's copy of the struct shares the bytes
  of the caller's. A heap maps the address of an array to its bytes; a slice is nil or
  names an array, an offset into it and a length (the capacity plays no part in a
  read). The bytes of a well-formed slice lie within its array.
\<close>

type_synonym heap = "nat \<Rightarrow> byte list"

datatype slice = nil_slice | Slice nat nat nat

fun bytes_of :: "heap \<Rightarrow> slice \<Rightarrow> byte list" where
  "bytes_of h nil_slice = []"
| "bytes_of h (Slice a off n) = take n (drop off (h a))"

record Config_mem =
  mem_AccessKey :: string
  mem_SecretKey :: string
  mem_Endpoint :: string
  mem_RootCA :: slice

text \<open>What the caller reads in its four fields, on a given heap.\<close>

definition load :: "heap \<Rightarrow> Config_mem \<Rightarrow> Config" where
  "load h cfg = \<lparr>AccessKey = mem_AccessKey cfg, SecretKey = mem_SecretKey cfg,
     Endpoint = mem_Endpoint cfg, RootCA = bytes_of h (mem_RootCA cfg)\<rparr>"

text \<open>
  Modelled from the spec: \<open>utils.BuildTLSConfig\<close> on a slice. The specification gives
  the builder a result for the certificate bytes and no other effect, and says of the
  configuration that the constructor reads it and does not mutate it: the builder
  reads the bytes of the slice and leaves the heap as it is.
\<close>

definition BuildTLSConfig_mem ::
  "(byte list \<Rightarrow> error option) \<Rightarrow> heap \<Rightarrow> slice \<Rightarrow> (error + tls_Config) \<times> heap" where
  "BuildTLSConfig_mem check h rootCA = (BuildTLSConfig check (bytes_of h rootCA), h)"

text \<open>
  \<open>validateConfig\<close>, lines 91 to 109, with the heap passed through. It reads the three
  strings; \<open>url.Parse\<close> is given a string.
\<close>

definition validateConfig_mem :: "('s, 'c) env \<Rightarrow> Config_mem \<Rightarrow> heap \<Rightarrow> error option \<times> heap" where
  "validateConfig_mem env cfg h =
     (if mem_Endpoint cfg = [] then (Some (Errorf ''endpoint is empty''), h)
      else case url_Parse env (mem_Endpoint cfg) of
             Some err \<Rightarrow>
               (Some (Errorf (''url parse endpoint ['' @ mem_Endpoint cfg
                              @ ''] failed, error is ['' @ Error err @ '']'')), h)
           | None \<Rightarrow>
               if mem_AccessKey cfg = [] then (Some (Errorf ''access key is empty''), h)
               else if mem_SecretKey cfg = [] then (Some (Errorf ''secret key is empty''), h)
               else (None, h))"

text \<open>
  \<open>NewS3Agent\<close>, lines 52 to 88, with the heap passed through. The slice is handed to
  the builder \<open>build\<close> alone (line 58), which may write to the heap; the heap it leaves
  is the one the function returns. The session is opened on strings and on the TLS
  configuration, and the client is made from the session: neither is given the slice.
\<close>

definition NewS3Agent_mem ::
  "('s, 'c) env \<Rightarrow> (heap \<Rightarrow> slice \<Rightarrow> (error + tls_Config) \<times> heap) \<Rightarrow> Config_mem \<Rightarrow> heap
   \<Rightarrow> ((error + 'c S3Agent) \<times> 's call list) \<times> heap" where
  "NewS3Agent_mem env build cfg h =
     (case validateConfig_mem env cfg h of
        (Some err, h1) \<Rightarrow> ((Inl err, []), h1)
      | (None, h1) \<Rightarrow>
          (case build h1 (mem_RootCA cfg) of
             (Inl err, h2) \<Rightarrow>
               ((Inl (Errorf (''build tls config failed, error is ['' @ Error err @ '']'')),
                 [BuildTLSConfig_call (bytes_of h1 (mem_RootCA cfg))]), h2)
           | (Inr tlsConfig, h2) \<Rightarrow>
               (case session_NewSession env (awsConfig (load h2 cfg) tlsConfig) of
                  Inl err \<Rightarrow>
                    ((Inl err,
                      [BuildTLSConfig_call (bytes_of h1 (mem_RootCA cfg)),
                       NewSession_call (awsConfig (load h2 cfg) tlsConfig)]), h2)
                | Inr s \<Rightarrow>
                    ((Inr \<lparr>Client = s3_New env s\<rparr>,
                      [BuildTLSConfig_call (bytes_of h1 (mem_RootCA cfg)),
                       NewSession_call (awsConfig (load h2 cfg) tlsConfig), s3_New_call s]),
                     h2))))"

text \<open>
  A builder that is not the specification's: it overwrites the array of the slice it
  is given with zeros.
\<close>

definition scrubbing_builder :: "heap \<Rightarrow> slice \<Rightarrow> (error + tls_Config) \<times> heap" where
  "scrubbing_builder h rootCA =
     (Inr DefaultTrust,
      case rootCA of
        nil_slice \<Rightarrow> h
      | Slice a off n \<Rightarrow> h(a := map (\<lambda>b. 0) (h a)))"

subsection \<open>The error conditions of the specification\<close>

text \<open>
  The specification names conditions; the source has messages only. A condition is
  read off the message that the source gives it.
\<close>

definition MissingField :: "error \<Rightarrow> bool" where
  "MissingField e =
     (e = Errorf ''endpoint is empty'' \<or> e = Errorf ''access key is empty''
      \<or> e = Errorf ''secret key is empty'')"

definition InvalidEndpoint :: "error \<Rightarrow> bool" where
  "InvalidEndpoint e =
     (case e of Errorf m \<Rightarrow> prefix ''url parse endpoint ['' m | External m \<Rightarrow> False)"


subsection \<open>Example collaborators\<close>

text \<open>
  The first check of \<open>url.Parse\<close>: a string with an ASCII control byte (below 0x20, or
  0x7f) is rejected. The other rejections of \<open>net/url\<close> are left out, and the text is
  the inner message of the \<open>url.Error\<close>.
\<close>

definition ctl_Parse :: "string \<Rightarrow> error option" where
  "ctl_Parse s =
     (if list_ex (\<lambda>c. of_char c < (32::nat) \<or> of_char c = (127::nat)) s
      then Some (External ''net/url: invalid control character in URL'')
      else None)"

text \<open>A check of certificate material that accepts nothing.\<close>

definition no_material :: "byte list \<Rightarrow> error option" where
  "no_material b = Some (External ''no valid certificate in root CA'')"

text \<open>
  An environment whose sessions always open: the session is the configuration it was
  opened on, and the client is the session.
\<close>

definition open_env :: "(aws_Config, aws_Config) env" where
  "open_env = \<lparr>url_Parse = ctl_Parse, cert_material = no_material,
     session_NewSession = (\<lambda>c. Inr c), s3_New = (\<lambda>s. s)\<rparr>"

text \<open>
  An environment whose sessions never open, as when the SDK cannot read the CA bundle
  that the process environment names.
\<close>

definition closed_env :: "(aws_Config, aws_Config) env" where
  "closed_env = \<lparr>url_Parse = ctl_Parse, cert_material = no_material,
     session_NewSession = (\<lambda>c. Inl (External ''LoadCustomCABundleError: failed to open custom CA bundle PEM file'')),
     s3_New = (\<lambda>s. s)\<rparr>"

text \<open>The two environments again, with the SDK's session and client as modelled.\<close>

definition sdk_open_failure :: "aws_Config \<Rightarrow> error option" where
  "sdk_open_failure c = None"

definition sdk_closed_failure :: "aws_Config \<Rightarrow> error option" where
  "sdk_closed_failure c =
     Some (External ''LoadCustomCABundleError: failed to open custom CA bundle PEM file'')"

subsection \<open>Example configurations\<close>

text \<open>The specification's scenario of a successful construction.\<close>

definition scenario :: Config where
  "scenario = \<lparr>AccessKey = ''AK'', SecretKey = ''SK'',
     Endpoint = ''https://s3.example.com'', RootCA = []\<rparr>"

text \<open>The scenario with a DEL byte at the end of its endpoint, which \<open>url.Parse\<close> rejects.\<close>

definition scenario_ctl :: Config where
  "scenario_ctl = scenario\<lparr>Endpoint := ''https://s3.example.com/'' @ [CHR 0x7F]\<rparr>"

text \<open>
  The scenario with its keys written into the endpoint as user information, before a
  DEL byte.
\<close>

definition scenario_userinfo :: Config where
  "scenario_userinfo = scenario\<lparr>Endpoint := ''https://AK:SK@s3.example.com/'' @ [CHR 0x7F]\<rparr>"

text \<open>The scenario with two bytes that are no certificate as its root certificate.\<close>

definition scenario_bad_ca :: Config where
  "scenario_bad_ca = scenario\<lparr>RootCA := [0x2D, 0x2D]\<rparr>"

text \<open>
  The scenario in memory, with a root certificate of two bytes in the array at address
  0, and a heap that holds these bytes there.
\<close>

definition scenario_mem :: Config_mem where
  "scenario_mem = \<lparr>mem_AccessKey = ''AK'', mem_SecretKey = ''SK'',
     mem_Endpoint = ''https://s3.example.com'', mem_RootCA = Slice 0 0 2\<rparr>"

definition heap0 :: heap where
  "heap0 = (\<lambda>a. [0x2D, 0x2D])"

section \<open>Properties\<close>

subsection \<open>Auxiliary facts\<close>

lemma validateConfig_ok:
  "Endpoint cfg \<noteq> [] \<Longrightarrow> url_Parse env (Endpoint cfg) = None \<Longrightarrow> AccessKey cfg \<noteq> [] \<Longrightarrow>
   SecretKey cfg \<noteq> [] \<Longrightarrow> validateConfig env cfg = None"
  by (simp add: validateConfig_def)

lemma validation_error_returned:
  "validateConfig env cfg = Some err \<Longrightarrow> NewS3Agent env cfg = (Inl err, [])"
  by (simp add: NewS3Agent_def)


lemma session_call_D:
  assumes "NewSession_call c \<in> set (snd (NewS3Agent env cfg))"
  shows "validateConfig env cfg = None \<and>
         (\<exists>t. BuildTLSConfig (cert_material env) (RootCA cfg) = Inr t \<and> c = awsConfig cfg t)"
  using assms by (auto simp add: NewS3Agent_def split: option.splits sum.splits)

lemma awsConfig_fields:
  "Region (awsConfig cfg t) = Some ''us-east-1''"
  "Credentials (awsConfig cfg t) = Some (NewStaticCredentials (AccessKey cfg) (SecretKey cfg) [])"
  "aws_Endpoint (awsConfig cfg t) = Some (Endpoint cfg)"
  "S3ForcePathStyle (awsConfig cfg t) = Some True"
  "MaxRetries (awsConfig cfg t) = Some 5"
  "HTTPClient (awsConfig cfg t) =
     Some \<lparr>Timeout = 200 * 1000000000, Transport = \<lparr>TLSClientConfig = t\<rparr>\<rparr>"
  by (simp_all add: awsConfig_def WithHTTPClient_def WithMaxRetries_def
      WithS3ForcePathStyle_def WithEndpoint_def WithCredentials_def WithRegion_def
      NewConfig_def httpTimeOut_def Second_def maxRetries_def defaultRegion_def)

subsection \<open>Missing fields\<close>

text \<open>
  C1, as stated, at a configuration whose access key is empty and whose endpoint does
  not parse: the access key is empty, yet the error is the one of the URL parse, which
  is not a MissingField error. The endpoint is parsed before the keys are looked at.
\<close>

theorem NewS3Agent_empty_key_unparsable_endpoint:
  "AccessKey (scenario_ctl\<lparr>AccessKey := []\<rparr>) = []
   \<and> NewS3Agent open_env (scenario_ctl\<lparr>AccessKey := []\<rparr>) =
       (Inl (Errorf (''url parse endpoint [https://s3.example.com/'' @ [CHR 0x7F]
          @ ''] failed, error is [net/url: invalid control character in URL]'')), [])
   \<and> \<not> MissingField (Errorf (''url parse endpoint [https://s3.example.com/'' @ [CHR 0x7F]
          @ ''] failed, error is [net/url: invalid control character in URL]''))"
  by (simp add: scenario_ctl_def scenario_def NewS3Agent_def validateConfig_def open_env_def
      ctl_Parse_def MissingField_def)

text \<open>
  C1, amended: for every configuration whose endpoint is empty, or whose endpoint
  parses as a URL and whose access key or secret key is empty, \<open>NewS3Agent\<close> returns a
  MissingField error and no handle, and calls no construction step (TLS, session or
  client).
\<close>

theorem NewS3Agent_missing_field:
  assumes "Endpoint cfg = []
           \<or> (url_Parse env (Endpoint cfg) = None \<and> (AccessKey cfg = [] \<or> SecretKey cfg = []))"
  shows "\<exists>e. NewS3Agent env cfg = (Inl e, []) \<and> MissingField e"
  using assms by (auto simp add: NewS3Agent_def validateConfig_def MissingField_def)

text \<open>C1, amended, at the scenario with its secret key emptied.\<close>

theorem NewS3Agent_missing_field_witness:
  "(Endpoint (scenario\<lparr>SecretKey := []\<rparr>) = []
    \<or> (url_Parse open_env (Endpoint (scenario\<lparr>SecretKey := []\<rparr>)) = None
       \<and> (AccessKey (scenario\<lparr>SecretKey := []\<rparr>) = []
          \<or> SecretKey (scenario\<lparr>SecretKey := []\<rparr>) = [])))
   \<and> (\<exists>e. NewS3Agent open_env (scenario\<lparr>SecretKey := []\<rparr>) = (Inl e, []) \<and> MissingField e)"
  using NewS3Agent_missing_field [of "scenario\<lparr>SecretKey := []\<rparr>" open_env]
  by (simp add: scenario_def open_env_def ctl_Parse_def)

subsection \<open>Invalid endpoint\<close>

text \<open>
  C2: for every configuration whose endpoint is not empty and is rejected by the URL
  parser, \<open>NewS3Agent\<close> returns the InvalidEndpoint error, made of the endpoint and of
  the parser's error text, and no handle; no construction step is called.
\<close>

theorem NewS3Agent_invalid_endpoint:
  assumes "Endpoint cfg \<noteq> []" and "url_Parse env (Endpoint cfg) = Some err"
  shows "NewS3Agent env cfg =
           (Inl (Errorf (''url parse endpoint ['' @ Endpoint cfg
                         @ ''] failed, error is ['' @ Error err @ '']'')), [])
         \<and> InvalidEndpoint (Errorf (''url parse endpoint ['' @ Endpoint cfg
                         @ ''] failed, error is ['' @ Error err @ '']''))"
  using assms by (simp add: NewS3Agent_def validateConfig_def InvalidEndpoint_def)

text \<open>C2 at the scenario whose endpoint ends in a control byte.\<close>

theorem NewS3Agent_invalid_endpoint_witness:
  "Endpoint scenario_ctl \<noteq> []
   \<and> url_Parse open_env (Endpoint scenario_ctl)
       = Some (External ''net/url: invalid control character in URL'')
   \<and> NewS3Agent open_env scenario_ctl =
       (Inl (Errorf (''url parse endpoint [https://s3.example.com/'' @ [CHR 0x7F]
          @ ''] failed, error is [net/url: invalid control character in URL]'')), [])
   \<and> InvalidEndpoint (Errorf (''url parse endpoint [https://s3.example.com/'' @ [CHR 0x7F]
          @ ''] failed, error is [net/url: invalid control character in URL]''))"
  using NewS3Agent_invalid_endpoint [of scenario_ctl open_env
      "External ''net/url: invalid control character in URL''"]
  by (simp add: scenario_ctl_def scenario_def open_env_def ctl_Parse_def)

subsection \<open>Successful construction\<close>

text \<open>
  C3, as stated, at the specification's own scenario (keys \<open>AK\<close> and \<open>SK\<close>, endpoint
  \<open>https://s3.example.com\<close>, no root certificate), where the session does not open:
  every condition of the claim holds and \<open>NewS3Agent\<close> returns the session's error and
  no handle.
\<close>

theorem NewS3Agent_valid_config_session_fails:
  "AccessKey scenario \<noteq> [] \<and> SecretKey scenario \<noteq> [] \<and> Endpoint scenario \<noteq> []
   \<and> ctl_Parse (Endpoint scenario) = None \<and> RootCA scenario = []
   \<and> NewS3Agent (sdk_env ctl_Parse no_material sdk_closed_failure) scenario =
       (Inl (External ''LoadCustomCABundleError: failed to open custom CA bundle PEM file''),
        [BuildTLSConfig_call [], NewSession_call (awsConfig scenario DefaultTrust)])"
  by (simp add: scenario_def sdk_env_def sdk_NewSession_def sdk_closed_failure_def
      ctl_Parse_def NewS3Agent_def validateConfig_def BuildTLSConfig_def)

text \<open>
  C3, amended: for every configuration with a non-empty access key, a non-empty secret
  key, a non-empty endpoint that parses as a URL and no root certificate bytes, if the
  session-opening call succeeds, then \<open>NewS3Agent\<close> succeeds and returns a handle
  wrapping a client that is configured with the caller's endpoint and with path-style
  addressing forced on. (The client is the one made from the session that was opened;
  the three construction steps were called, in order.)
\<close>

theorem NewS3Agent_succeeds:
  assumes "AccessKey cfg \<noteq> []" and "SecretKey cfg \<noteq> []" and "Endpoint cfg \<noteq> []"
    and "parse (Endpoint cfg) = None" and "RootCA cfg = []"
    and "sdk_NewSession failure (awsConfig cfg DefaultTrust) = Inr s"
  shows "NewS3Agent (sdk_env parse check failure) cfg =
           (Inr \<lparr>Client = sdk_New s\<rparr>,
            [BuildTLSConfig_call [], NewSession_call (awsConfig cfg DefaultTrust), s3_New_call s])
         \<and> aws_Endpoint (client_Config (sdk_New s)) = Some (Endpoint cfg)
         \<and> S3ForcePathStyle (client_Config (sdk_New s)) = Some True"
proof -
  have v: "validateConfig (sdk_env parse check failure) cfg = None"
    using assms(1-4) by (simp add: validateConfig_ok sdk_env_def)
  have t: "BuildTLSConfig (cert_material (sdk_env parse check failure)) (RootCA cfg)
           = Inr DefaultTrust"
    using assms(5) by (simp add: BuildTLSConfig_def)
  have o: "session_NewSession (sdk_env parse check failure) (awsConfig cfg DefaultTrust) = Inr s"
    using assms(6) by (simp add: sdk_env_def)
  have r: "NewS3Agent (sdk_env parse check failure) cfg =
           (Inr \<lparr>Client = s3_New (sdk_env parse check failure) s\<rparr>,
            [BuildTLSConfig_call [], NewSession_call (awsConfig cfg DefaultTrust), s3_New_call s])"
    using v t o assms(5) by (simp add: NewS3Agent_def)
  have n: "s3_New (sdk_env parse check failure) s = sdk_New s"
    by (simp add: sdk_env_def)
  have c: "session_Config s = awsConfig cfg DefaultTrust"
    using assms(6) by (auto simp add: sdk_NewSession_def split: option.splits)
  from r n c show ?thesis by (simp add: sdk_New_def awsConfig_fields)
qed

text \<open>C3, amended, at the scenario, where the session opens.\<close>

theorem NewS3Agent_succeeds_witness:
  "AccessKey scenario \<noteq> [] \<and> SecretKey scenario \<noteq> [] \<and> Endpoint scenario \<noteq> []
   \<and> ctl_Parse (Endpoint scenario) = None \<and> RootCA scenario = []
   \<and> sdk_NewSession sdk_open_failure (awsConfig scenario DefaultTrust)
       = Inr \<lparr>session_Config = awsConfig scenario DefaultTrust\<rparr>
   \<and> NewS3Agent (sdk_env ctl_Parse no_material sdk_open_failure) scenario =
       (Inr \<lparr>Client = sdk_New \<lparr>session_Config = awsConfig scenario DefaultTrust\<rparr>\<rparr>,
        [BuildTLSConfig_call [], NewSession_call (awsConfig scenario DefaultTrust),
         s3_New_call \<lparr>session_Config = awsConfig scenario DefaultTrust\<rparr>])
   \<and> aws_Endpoint (client_Config (sdk_New \<lparr>session_Config = awsConfig scenario DefaultTrust\<rparr>))
       = Some ''https://s3.example.com''
   \<and> S3ForcePathStyle (client_Config (sdk_New \<lparr>session_Config = awsConfig scenario DefaultTrust\<rparr>))
       = Some True"
proof -
  have k: "AccessKey scenario \<noteq> []" "SecretKey scenario \<noteq> []" "Endpoint scenario \<noteq> []"
    "RootCA scenario = []"
    by (simp_all add: scenario_def)
  have p: "ctl_Parse (Endpoint scenario) = None"
    by (simp add: scenario_def ctl_Parse_def)
  have o: "sdk_NewSession sdk_open_failure (awsConfig scenario DefaultTrust)
       = Inr \<lparr>session_Config = awsConfig scenario DefaultTrust\<rparr>"
    by (simp add: sdk_NewSession_def sdk_open_failure_def)
  from NewS3Agent_succeeds
      [where cfg = scenario and parse = ctl_Parse and failure = sdk_open_failure
        and s = "\<lparr>session_Config = awsConfig scenario DefaultTrust\<rparr>" and check = no_material,
        OF k(1) k(2) k(3) p k(4) o] k p o
  show ?thesis by (simp add: scenario_def)
qed

subsection \<open>Failure of the TLS configuration\<close>



subsection \<open>Failure of the session\<close>

text \<open>
  C5: when \<open>NewS3Agent\<close> calls \<open>session.NewSession\<close> and the call fails, \<open>NewS3Agent\<close>
  returns no handle and that very error value, neither wrapped nor annotated; no client
  is made.
\<close>

theorem NewS3Agent_session_failure:
  assumes "NewSession_call c \<in> set (snd (NewS3Agent env cfg))"
    and "session_NewSession env c = Inl err"
  shows "NewS3Agent env cfg = (Inl err, [BuildTLSConfig_call (RootCA cfg), NewSession_call c])"
proof -
  from assms(1) obtain t where v: "validateConfig env cfg = None"
    and t: "BuildTLSConfig (cert_material env) (RootCA cfg) = Inr t" and c: "c = awsConfig cfg t"
    using session_call_D by blast
  from v t c assms(2) show ?thesis by (simp add: NewS3Agent_def)
qed

text \<open>C5 at the scenario, where the session does not open.\<close>

theorem NewS3Agent_session_failure_witness:
  "NewSession_call (awsConfig scenario DefaultTrust) \<in> set (snd (NewS3Agent closed_env scenario))
   \<and> session_NewSession closed_env (awsConfig scenario DefaultTrust)
       = Inl (External ''LoadCustomCABundleError: failed to open custom CA bundle PEM file'')
   \<and> NewS3Agent closed_env scenario =
       (Inl (External ''LoadCustomCABundleError: failed to open custom CA bundle PEM file''),
        [BuildTLSConfig_call (RootCA scenario), NewSession_call (awsConfig scenario DefaultTrust)])"
proof -
  have c: "NewSession_call (awsConfig scenario DefaultTrust)
           \<in> set (snd (NewS3Agent closed_env scenario))"
    by (simp add: scenario_def closed_env_def ctl_Parse_def NewS3Agent_def validateConfig_def
        BuildTLSConfig_def)
  have f: "session_NewSession closed_env (awsConfig scenario DefaultTrust)
       = Inl (External ''LoadCustomCABundleError: failed to open custom CA bundle PEM file'')"
    by (simp add: closed_env_def)
  from NewS3Agent_session_failure [OF c f] c f show ?thesis by simp
qed

subsection \<open>Fixed policy\<close>



subsection \<open>The scenario without an access key\<close>

text \<open>
  C7: for the configuration with an empty access key, the secret key \<open>SK\<close> and the
  endpoint \<open>https://s3.example.com\<close> (which the URL parser accepts), whatever its root
  certificate, \<open>NewS3Agent\<close> fails with the MissingField error \<open>access key is empty\<close>.
\<close>

theorem NewS3Agent_scenario_no_access_key:
  assumes "url_Parse env ''https://s3.example.com'' = None"
  shows "NewS3Agent env \<lparr>AccessKey = [], SecretKey = ''SK'',
             Endpoint = ''https://s3.example.com'', RootCA = ca\<rparr>
           = (Inl (Errorf ''access key is empty''), [])
         \<and> MissingField (Errorf ''access key is empty'')"
  using assms by (simp add: NewS3Agent_def validateConfig_def MissingField_def)

text \<open>C7 with a parser that accepts the endpoint, and no root certificate.\<close>

theorem NewS3Agent_scenario_no_access_key_witness:
  "url_Parse open_env ''https://s3.example.com'' = None
   \<and> NewS3Agent open_env \<lparr>AccessKey = [], SecretKey = ''SK'',
         Endpoint = ''https://s3.example.com'', RootCA = []\<rparr>
       = (Inl (Errorf ''access key is empty''), [])
   \<and> MissingField (Errorf ''access key is empty'')"
proof -
  have p: "url_Parse open_env ''https://s3.example.com'' = None"
    by (simp add: open_env_def ctl_Parse_def)
  from NewS3Agent_scenario_no_access_key [OF p, of "[]"] p show ?thesis by simp
qed

subsection \<open>The caller's configuration\<close>

text \<open>
  The functions on memory compute what the functions on values compute, on the
  configuration that the caller reads.
\<close>

lemma validateConfig_mem_result:
  "fst (validateConfig_mem env cfg h) = validateConfig env (load h cfg)"
  by (simp add: validateConfig_mem_def validateConfig_def load_def split: option.split)

lemma validateConfig_mem_heap:
  "snd (validateConfig_mem env cfg h) = h"
  by (simp add: validateConfig_mem_def split: option.split)

lemma NewS3Agent_mem_result:
  "fst (NewS3Agent_mem env (BuildTLSConfig_mem (cert_material env)) cfg h)
   = NewS3Agent env (load h cfg)"
proof -
  have v: "validateConfig_mem env cfg h = (validateConfig env (load h cfg), h)"
    using validateConfig_mem_result [of env cfg h] validateConfig_mem_heap [of env cfg h]
    by (simp add: prod_eq_iff)
  have l: "RootCA (load h cfg) = bytes_of h (mem_RootCA cfg)"
    by (simp add: load_def)
  show ?thesis
    by (simp add: NewS3Agent_mem_def NewS3Agent_def BuildTLSConfig_mem_def v l
        split: option.split sum.split)
qed

text \<open>
  The heap that \<open>NewS3Agent\<close> returns is the one that validation passed on, or the one
  that the builder left: the function itself writes nothing.
\<close>

lemma NewS3Agent_mem_heap:
  "snd (NewS3Agent_mem env build cfg h) =
     (case validateConfig env (load h cfg) of
        Some err \<Rightarrow> h
      | None \<Rightarrow> snd (build h (mem_RootCA cfg)))"
proof -
  have v: "validateConfig_mem env cfg h = (validateConfig env (load h cfg), h)"
    using validateConfig_mem_result [of env cfg h] validateConfig_mem_heap [of env cfg h]
    by (simp add: prod_eq_iff)
  show ?thesis
    by (cases "build h (mem_RootCA cfg)")
      (simp add: NewS3Agent_mem_def v split: option.split sum.split)
qed

text \<open>
  With any builder that leaves the bytes of the slice it is given as they are, the
  caller reads the same configuration after the call.
\<close>

lemma NewS3Agent_mem_frame:
  assumes "bytes_of (snd (build h (mem_RootCA cfg))) (mem_RootCA cfg)
           = bytes_of h (mem_RootCA cfg)"
  shows "load (snd (NewS3Agent_mem env build cfg h)) cfg = load h cfg"
  using assms by (simp add: NewS3Agent_mem_heap load_def split: option.split)

text \<open>
  The statement is not empty: with a builder that writes to the array, the caller
  reads another root certificate after the call.
\<close>

lemma scrubbing_builder_observed:
  "RootCA (load heap0 scenario_mem) = [0x2D, 0x2D]
   \<and> RootCA (load (snd (NewS3Agent_mem open_env scrubbing_builder scenario_mem heap0))
        scenario_mem) = [0, 0]"
  by (simp add: NewS3Agent_mem_heap load_def scenario_mem_def heap0_def scrubbing_builder_def
      validateConfig_def open_env_def ctl_Parse_def)

text \<open>
  C8: \<open>validateConfig\<close> has no effect on memory, and after a call of \<open>validateConfig\<close>
  or of \<open>NewS3Agent\<close> the caller reads in its configuration the four fields that it
  read before the call, the bytes of the root certificate included. (Strings cannot be
  written to; the bytes are shared with the callee, and \<open>NewS3Agent\<close> hands them to the
  TLS-configuration builder.)
\<close>

theorem config_unchanged:
  "snd (validateConfig_mem env cfg h) = h
   \<and> load (snd (validateConfig_mem env cfg h)) cfg = load h cfg
   \<and> load (snd (NewS3Agent_mem env (BuildTLSConfig_mem (cert_material env)) cfg h)) cfg
       = load h cfg"
proof -
  have b: "bytes_of (snd (BuildTLSConfig_mem (cert_material env) h (mem_RootCA cfg)))
             (mem_RootCA cfg) = bytes_of h (mem_RootCA cfg)"
    by (simp add: BuildTLSConfig_mem_def)
  from NewS3Agent_mem_frame [of "BuildTLSConfig_mem (cert_material env)" h cfg env, OF b]
  show ?thesis by (simp add: validateConfig_mem_heap)
qed

subsection \<open>The order of the checks\<close>

text \<open>
  C9: \<open>validateConfig\<close> checks in order that the endpoint is not empty, that it parses,
  that the access key is not empty and that the secret key is not empty, and the first
  check to fail gives the error, whatever the later fields are. So an empty endpoint
  gives \<open>endpoint is empty\<close> also when the access key is empty, and an empty access key
  under a valid endpoint gives \<open>access key is empty\<close> also when the secret key is
  empty.
\<close>

theorem validateConfig_order:
  "(Endpoint cfg = [] \<longrightarrow> validateConfig env cfg = Some (Errorf ''endpoint is empty''))
   \<and> (Endpoint cfg \<noteq> [] \<and> url_Parse env (Endpoint cfg) = Some err \<longrightarrow>
        validateConfig env cfg =
          Some (Errorf (''url parse endpoint ['' @ Endpoint cfg
                        @ ''] failed, error is ['' @ Error err @ '']'')))
   \<and> (Endpoint cfg \<noteq> [] \<and> url_Parse env (Endpoint cfg) = None \<and> AccessKey cfg = [] \<longrightarrow>
        validateConfig env cfg = Some (Errorf ''access key is empty''))
   \<and> (Endpoint cfg \<noteq> [] \<and> url_Parse env (Endpoint cfg) = None \<and> AccessKey cfg \<noteq> []
        \<and> SecretKey cfg = [] \<longrightarrow>
        validateConfig env cfg = Some (Errorf ''secret key is empty''))"
  by (simp add: validateConfig_def)

text \<open>
  C9 at four configurations: endpoint and access key both empty; an endpoint with a
  control byte and both keys empty; a valid endpoint and both keys empty; a valid
  endpoint and the secret key alone empty.
\<close>

theorem validateConfig_order_witness:
  "(Endpoint (scenario\<lparr>Endpoint := [], AccessKey := []\<rparr>) = []
    \<and> AccessKey (scenario\<lparr>Endpoint := [], AccessKey := []\<rparr>) = []
    \<and> validateConfig open_env (scenario\<lparr>Endpoint := [], AccessKey := []\<rparr>)
        = Some (Errorf ''endpoint is empty''))
   \<and> (Endpoint (scenario_ctl\<lparr>AccessKey := [], SecretKey := []\<rparr>) \<noteq> []
    \<and> url_Parse open_env (Endpoint (scenario_ctl\<lparr>AccessKey := [], SecretKey := []\<rparr>))
        = Some (External ''net/url: invalid control character in URL'')
    \<and> validateConfig open_env (scenario_ctl\<lparr>AccessKey := [], SecretKey := []\<rparr>)
        = Some (Errorf (''url parse endpoint [https://s3.example.com/'' @ [CHR 0x7F]
            @ ''] failed, error is [net/url: invalid control character in URL]'')))
   \<and> (Endpoint (scenario\<lparr>AccessKey := [], SecretKey := []\<rparr>) \<noteq> []
    \<and> url_Parse open_env (Endpoint (scenario\<lparr>AccessKey := [], SecretKey := []\<rparr>)) = None
    \<and> AccessKey (scenario\<lparr>AccessKey := [], SecretKey := []\<rparr>) = []
    \<and> SecretKey (scenario\<lparr>AccessKey := [], SecretKey := []\<rparr>) = []
    \<and> validateConfig open_env (scenario\<lparr>AccessKey := [], SecretKey := []\<rparr>)
        = Some (Errorf ''access key is empty''))
   \<and> (Endpoint (scenario\<lparr>SecretKey := []\<rparr>) \<noteq> []
    \<and> url_Parse open_env (Endpoint (scenario\<lparr>SecretKey := []\<rparr>)) = None
    \<and> AccessKey (scenario\<lparr>SecretKey := []\<rparr>) \<noteq> []
    \<and> SecretKey (scenario\<lparr>SecretKey := []\<rparr>) = []
    \<and> validateConfig open_env (scenario\<lparr>SecretKey := []\<rparr>)
        = Some (Errorf ''secret key is empty''))"
  using validateConfig_order [of "scenario\<lparr>Endpoint := [], AccessKey := []\<rparr>" open_env]
    validateConfig_order [of "scenario_ctl\<lparr>AccessKey := [], SecretKey := []\<rparr>" open_env
      "External ''net/url: invalid control character in URL''"]
    validateConfig_order [of "scenario\<lparr>AccessKey := [], SecretKey := []\<rparr>" open_env]
    validateConfig_order [of "scenario\<lparr>SecretKey := []\<rparr>" open_env]
  by (simp add: scenario_ctl_def scenario_def open_env_def ctl_Parse_def)

subsection \<open>Keys and error messages\<close>

text \<open>
  C10, as stated, at a configuration whose endpoint holds the keys and does not parse:
  the validation error echoes the endpoint, and so its text contains the value of the
  secret key (and that of the access key before it).
\<close>

theorem validation_error_echoes_endpoint_holding_key:
  "SecretKey scenario_userinfo = ''SK''
   \<and> NewS3Agent open_env scenario_userinfo =
       (Inl (Errorf (''url parse endpoint [https://AK:'' @ SecretKey scenario_userinfo
          @ ''@s3.example.com/'' @ [CHR 0x7F]
          @ ''] failed, error is [net/url: invalid control character in URL]'')), [])"
  by (simp add: scenario_userinfo_def scenario_def NewS3Agent_def validateConfig_def
      open_env_def ctl_Parse_def)

text \<open>
  C10, amended: no key is copied into an error message that \<open>NewS3Agent\<close> makes. Take
  two configurations with the same endpoint and with the same keys empty, whatever the
  values of their keys. If validation fails on one, \<open>NewS3Agent\<close> returns the same error
  on both, and that error is one of the three fixed MissingField messages or the
  message made of the endpoint and of the parser's error on the endpoint. If validation
  passes, the root certificates are the same and the TLS-configuration builder fails,
  \<open>NewS3Agent\<close> returns the same error on both, made of a fixed text and of the text of
  the builder's error. The endpoint is the only field copied into a message; a key's
  value is in a message only where the endpoint or the fixed text holds it.
\<close>

theorem error_messages_independent_of_keys:
  assumes "Endpoint cfg' = Endpoint cfg"
    and "(AccessKey cfg' = []) = (AccessKey cfg = [])"
    and "(SecretKey cfg' = []) = (SecretKey cfg = [])"
  shows "(validateConfig env cfg = Some e \<longrightarrow>
            NewS3Agent env cfg = (Inl e, []) \<and> NewS3Agent env cfg' = (Inl e, [])
            \<and> (MissingField e
               \<or> (\<exists>err. url_Parse env (Endpoint cfg) = Some err
                    \<and> e = Errorf (''url parse endpoint ['' @ Endpoint cfg
                           @ ''] failed, error is ['' @ Error err @ '']''))))
         \<and> (validateConfig env cfg = None \<and> RootCA cfg' = RootCA cfg
            \<and> BuildTLSConfig (cert_material env) (RootCA cfg) = Inl err \<longrightarrow>
            NewS3Agent env cfg =
              (Inl (Errorf (''build tls config failed, error is ['' @ Error err @ '']'')),
               [BuildTLSConfig_call (RootCA cfg)])
            \<and> NewS3Agent env cfg' =
              (Inl (Errorf (''build tls config failed, error is ['' @ Error err @ '']'')),
               [BuildTLSConfig_call (RootCA cfg)]))"
proof -
  have same: "validateConfig env cfg' = validateConfig env cfg"
    using assms by (simp add: validateConfig_def split: option.split)
  have validation: "NewS3Agent env cfg = (Inl e, []) \<and> NewS3Agent env cfg' = (Inl e, [])
            \<and> (MissingField e
               \<or> (\<exists>err. url_Parse env (Endpoint cfg) = Some err
                    \<and> e = Errorf (''url parse endpoint ['' @ Endpoint cfg
                           @ ''] failed, error is ['' @ Error err @ '']'')))"
    if v: "validateConfig env cfg = Some e"
  proof -
    have shape: "MissingField e
            \<or> (\<exists>err. url_Parse env (Endpoint cfg) = Some err
                 \<and> e = Errorf (''url parse endpoint ['' @ Endpoint cfg
                        @ ''] failed, error is ['' @ Error err @ '']''))"
      using v
      by (auto simp add: validateConfig_def MissingField_def split: if_splits option.splits)
    from same v shape show ?thesis by (simp add: validation_error_returned)
  qed
  have tls: "NewS3Agent env cfg =
              (Inl (Errorf (''build tls config failed, error is ['' @ Error err @ '']'')),
               [BuildTLSConfig_call (RootCA cfg)])
            \<and> NewS3Agent env cfg' =
              (Inl (Errorf (''build tls config failed, error is ['' @ Error err @ '']'')),
               [BuildTLSConfig_call (RootCA cfg)])"
    if v: "validateConfig env cfg = None" and r: "RootCA cfg' = RootCA cfg"
      and b: "BuildTLSConfig (cert_material env) (RootCA cfg) = Inl err"
    using same v r b by (simp add: NewS3Agent_def)
  from validation tls show ?thesis by blast
qed

text \<open>
  C10, amended, at two configurations with the endpoint that does not parse and with
  different keys, and at two with a root certificate that is no certificate and with
  different keys.
\<close>

theorem error_messages_independent_of_keys_witness:
  "Endpoint (scenario_ctl\<lparr>AccessKey := ''AKIA2'', SecretKey := ''hunter2''\<rparr>) = Endpoint scenario_ctl
   \<and> (AccessKey (scenario_ctl\<lparr>AccessKey := ''AKIA2'', SecretKey := ''hunter2''\<rparr>) = [])
       = (AccessKey scenario_ctl = [])
   \<and> (SecretKey (scenario_ctl\<lparr>AccessKey := ''AKIA2'', SecretKey := ''hunter2''\<rparr>) = [])
       = (SecretKey scenario_ctl = [])
   \<and> validateConfig open_env scenario_ctl
       = Some (Errorf (''url parse endpoint [https://s3.example.com/'' @ [CHR 0x7F]
            @ ''] failed, error is [net/url: invalid control character in URL]''))
   \<and> NewS3Agent open_env scenario_ctl
       = (Inl (Errorf (''url parse endpoint [https://s3.example.com/'' @ [CHR 0x7F]
            @ ''] failed, error is [net/url: invalid control character in URL]'')), [])
   \<and> NewS3Agent open_env (scenario_ctl\<lparr>AccessKey := ''AKIA2'', SecretKey := ''hunter2''\<rparr>)
       = (Inl (Errorf (''url parse endpoint [https://s3.example.com/'' @ [CHR 0x7F]
            @ ''] failed, error is [net/url: invalid control character in URL]'')), [])
   \<and> Endpoint (scenario_bad_ca\<lparr>AccessKey := ''AKIA2'', SecretKey := ''hunter2''\<rparr>)
       = Endpoint scenario_bad_ca
   \<and> (AccessKey (scenario_bad_ca\<lparr>AccessKey := ''AKIA2'', SecretKey := ''hunter2''\<rparr>) = [])
       = (AccessKey scenario_bad_ca = [])
   \<and> (SecretKey (scenario_bad_ca\<lparr>AccessKey := ''AKIA2'', SecretKey := ''hunter2''\<rparr>) = [])
       = (SecretKey scenario_bad_ca = [])
   \<and> validateConfig open_env scenario_bad_ca = None
   \<and> RootCA (scenario_bad_ca\<lparr>AccessKey := ''AKIA2'', SecretKey := ''hunter2''\<rparr>)
       = RootCA scenario_bad_ca
   \<and> BuildTLSConfig (cert_material open_env) (RootCA scenario_bad_ca)
       = Inl (External ''no valid certificate in root CA'')
   \<and> NewS3Agent open_env scenario_bad_ca
       = (Inl (Errorf ''build tls config failed, error is [no valid certificate in root CA]''),
          [BuildTLSConfig_call [0x2D, 0x2D]])
   \<and> NewS3Agent open_env (scenario_bad_ca\<lparr>AccessKey := ''AKIA2'', SecretKey := ''hunter2''\<rparr>)
       = (Inl (Errorf ''build tls config failed, error is [no valid certificate in root CA]''),
          [BuildTLSConfig_call [0x2D, 0x2D]])"
proof -
  have v: "validateConfig open_env scenario_ctl
       = Some (Errorf (''url parse endpoint [https://s3.example.com/'' @ [CHR 0x7F]
            @ ''] failed, error is [net/url: invalid control character in URL]''))"
    by (simp add: scenario_ctl_def scenario_def open_env_def ctl_Parse_def validateConfig_def)
  have w: "validateConfig open_env scenario_bad_ca = None"
    by (simp add: scenario_bad_ca_def scenario_def open_env_def ctl_Parse_def
        validateConfig_def)
  have b: "BuildTLSConfig (cert_material open_env) (RootCA scenario_bad_ca)
       = Inl (External ''no valid certificate in root CA'')"
    by (simp add: scenario_bad_ca_def scenario_def open_env_def BuildTLSConfig_def
        no_material_def)
  from error_messages_independent_of_keys
      [of "scenario_ctl\<lparr>AccessKey := ''AKIA2'', SecretKey := ''hunter2''\<rparr>" scenario_ctl
        open_env "Errorf (''url parse endpoint [https://s3.example.com/'' @ [CHR 0x7F]
            @ ''] failed, error is [net/url: invalid control character in URL]'')"]
    error_messages_independent_of_keys
      [of "scenario_bad_ca\<lparr>AccessKey := ''AKIA2'', SecretKey := ''hunter2''\<rparr>" scenario_bad_ca
        open_env _ "External ''no valid certificate in root CA''"]
    v w b
  show ?thesis by (simp add: scenario_ctl_def scenario_bad_ca_def scenario_def)
qed

end
